theory Spec2Isabelle
  imports Main "HOL-Library.Sublist" "HOL-Library.Multiset"
begin

section \<open>Values exchanged with the handlers of app.py\<close>

text \<open>
  A request body is what \<^verbatim>\<open>request.get_json()\<close> returns: a JSON value. An object is
  the Python dict the parser built, kept as an association list that \<open>map_of\<close> reads.
  \<open>JNum\<close> holds the integral numbers; strings are sequences of \<open>char\<close>.
\<close>

datatype json =
    JNull
  | JBool bool
  | JNum int
  | JStr string
  | JArr "json list"
  | JObj "(string \<times> json) list"

text \<open>
  The exceptions the handlers can meet and do not catch. \<open>DatabaseError\<close> stands for
  whatever SQLAlchemy raises when a statement is refused (a NULL in a \<^verbatim>\<open>nullable=False\<close>
  column, a value longer than its \<^verbatim>\<open>String(n)\<close> column, a duplicate in a
  \<^verbatim>\<open>unique=True\<close> column, a parameter the driver cannot send). The last three are
  botocore's: they are not subclasses of \<^verbatim>\<open>ClientError\<close>.
\<close>

datatype exn =
    AttributeError
  | TypeError
  | DatabaseError
  | NoCredentialsError
  | ParamValidationError
  | EndpointConnectionError

text \<open>
  A handler either returns \<^verbatim>\<open>jsonify(body), status\<close> (\<open>Inr\<close>), or leaves through an
  exception (\<open>Inl\<close>): \<^verbatim>\<open>first_or_404\<close> aborts with 404, anything else is unhandled.
\<close>

datatype failure = NotFound | Raised exn

type_synonym response = "failure + nat \<times> json"

text \<open>
  A call of the boto3 client returns, or raises botocore's \<^verbatim>\<open>ClientError\<close>, the
  exception both handlers name (the string is \<^verbatim>\<open>str(e)\<close>), or raises an exception of
  another class: the credentials are missing, a parameter is not of the type the client
  validates (a content type that is not a string), the endpoint cannot be reached.
\<close>

datatype 'a s3_result = Returned 'a | ClientError string | Raises exn

text \<open>
  What the module reads from its environment and from libraries outside the repository:
  \<^item> \<open>S3_BUCKET\<close> is \<^verbatim>\<open>os.getenv('S3_BUCKET_NAME')\<close>, \<open>None\<close> when the variable is unset;
  \<^item> \<open>str_other\<close> is Python's \<^verbatim>\<open>str\<close> on numbers, lists and dicts inside an f-string;
  \<^item> \<open>store_other\<close> is what a string column receives when the bound parameter is neither
    \<^verbatim>\<open>None\<close> nor a \<^verbatim>\<open>str\<close> (\<open>None\<close>: the statement is refused);
  \<^item> \<open>match_other\<close> is which stored strings such a parameter equals in a \<^verbatim>\<open>WHERE\<close> clause
    (\<open>None\<close>: the statement is refused);
  \<^item> \<open>isoformat\<close> is \<^verbatim>\<open>datetime.isoformat\<close>, on time stamps kept as natural numbers.
\<close>

record env =
  S3_BUCKET :: "string option"
  str_other :: "json \<Rightarrow> string"
  store_other :: "json \<Rightarrow> string option option"
  match_other :: "json \<Rightarrow> (string \<Rightarrow> bool) option"
  isoformat :: "nat \<Rightarrow> string"

section \<open>Database models\<close>

record Client =
  id :: nat
  client_id :: string
  first_name :: string
  last_name :: string
  email :: string
  phone :: "string option"
  dob :: "string option"
  street :: "string option"
  city :: "string option"
  state :: "string option"
  zip_code :: "string option"
  country :: "string option"
  notes' :: "string option"
  created_at :: nat

record ClientPicture =
  id :: nat
  client_id :: nat
  s3_key :: string
  file_name :: "string option"
  file_type :: "string option"
  uploaded_at :: nat

text \<open>
  The two tables in insertion order with their AUTO_INCREMENT counters, and the keys of
  the objects held in the bucket. A transaction that is rolled back restores the tables and
  the counters; the bucket is outside it.
\<close>

record world =
  clients :: "Client list"
  client_pictures :: "ClientPicture list"
  next_client_id :: nat
  next_picture_id :: nat
  objects :: "string set"

definition empty_world :: world where
  "empty_world = \<lparr>clients = [], client_pictures = [], next_client_id = 1,
     next_picture_id = 1, objects = {}\<rparr>"

section \<open>Python and SQLAlchemy primitives\<close>

text \<open>\<^verbatim>\<open>d.get(k, default)\<close>; on anything but a dict the attribute \<^verbatim>\<open>get\<close> is missing.\<close>

definition dict_get :: "json \<Rightarrow> string \<Rightarrow> json \<Rightarrow> exn + json" where
  "dict_get d k dflt =
     (case d of
        JObj kvs \<Rightarrow> Inr (case map_of kvs k of None \<Rightarrow> dflt | Some v \<Rightarrow> v)
      | _ \<Rightarrow> Inl AttributeError)"

text \<open>A value interpolated in an f-string.\<close>

fun format_value :: "env \<Rightarrow> json \<Rightarrow> string" where
  "format_value e (JStr s) = s"
| "format_value e JNull = ''None''"
| "format_value e (JBool b) = (if b then ''True'' else ''False'')"
| "format_value e v = str_other e v"

definition format_opt :: "string option \<Rightarrow> string" where
  "format_opt v = (case v of None \<Rightarrow> ''None'' | Some s \<Rightarrow> s)"

text \<open>\<^verbatim>\<open>for pic in v\<close>: a list yields its items, a dict its keys, a string its characters.\<close>

fun iterate :: "json \<Rightarrow> exn + json list" where
  "iterate (JArr xs) = Inr xs"
| "iterate (JObj kvs) = Inr (map (\<lambda>kv. JStr (fst kv)) kvs)"
| "iterate (JStr s) = Inr (map (\<lambda>c. JStr [c]) s)"
| "iterate v = Inl TypeError"

text \<open>
  A parameter bound to a string column, and to a comparison with one. \<^verbatim>\<open>None\<close> is sent as
  NULL, which no comparison matches; two strings are compared for equality, as the server
  does under a binary collation.
\<close>

fun store_value :: "env \<Rightarrow> json \<Rightarrow> exn + string option" where
  "store_value e JNull = Inr None"
| "store_value e (JStr s) = Inr (Some s)"
| "store_value e v = (case store_other e v of None \<Rightarrow> Inl DatabaseError | Some r \<Rightarrow> Inr r)"

fun match_value :: "env \<Rightarrow> json \<Rightarrow> exn + (string \<Rightarrow> bool)" where
  "match_value e JNull = Inr (\<lambda>t. False)"
| "match_value e (JStr s) = Inr (\<lambda>t. t = s)"
| "match_value e v = (case match_other e v of None \<Rightarrow> Inl DatabaseError | Some p \<Rightarrow> Inr p)"

text \<open>
  \<^verbatim>\<open>db.Column(db.String(n))\<close>: the server, MySQL in its default strict mode, refuses a
  value of more than \<open>n\<close> characters. \<^verbatim>\<open>nullable=False\<close>: it refuses NULL.
\<close>

definition db_String :: "nat \<Rightarrow> exn + string option \<Rightarrow> exn + string option" where
  "db_String n v =
     (case v of
        Inr (Some s) \<Rightarrow> if n < length s then Inl DatabaseError else Inr (Some s)
      | _ \<Rightarrow> v)"

definition not_null :: "exn + string option \<Rightarrow> exn + string" where
  "not_null v =
     (case v of
        Inl x \<Rightarrow> Inl x
      | Inr None \<Rightarrow> Inl DatabaseError
      | Inr (Some s) \<Rightarrow> Inr s)"

definition opt_json :: "string option \<Rightarrow> json" where
  "opt_json v = (case v of None \<Rightarrow> JNull | Some s \<Rightarrow> JStr s)"

text \<open>Sequencing of steps that may raise.\<close>

definition and_then :: "exn + 'a \<Rightarrow> ('a \<Rightarrow> exn + 'b) \<Rightarrow> exn + 'b" where
  "and_then m f = (case m of Inl x \<Rightarrow> Inl x | Inr a \<Rightarrow> f a)"

fun try_all :: "('a \<Rightarrow> exn + 'b) \<Rightarrow> 'a list \<Rightarrow> exn + 'b list" where
  "try_all f [] = Inr []"
| "try_all f (x # xs) = and_then (f x) (\<lambda>y. and_then (try_all f xs) (\<lambda>ys. Inr (y # ys)))"

section \<open>Model methods\<close>

definition picture_to_dict :: "env \<Rightarrow> ClientPicture \<Rightarrow> json" where
  "picture_to_dict e p =
     JObj [(''id'', JNum (int (ClientPicture.id p))),
           (''s3_key'', JStr (s3_key p)),
           (''file_name'', opt_json (file_name p)),
           (''file_type'', opt_json (file_type p)),
           (''url'', JStr (''https://'' @ format_opt (S3_BUCKET e) @ ''.s3.amazonaws.com/''
                            @ s3_key p))]"

text \<open>\<^verbatim>\<open>client.pictures\<close>: the rows of \<^verbatim>\<open>client_pictures\<close> whose foreign key is the client.\<close>

definition pictures :: "world \<Rightarrow> Client \<Rightarrow> ClientPicture list" where
  "pictures w c = filter (\<lambda>p. ClientPicture.client_id p = Client.id c) (client_pictures w)"

definition to_dict :: "env \<Rightarrow> world \<Rightarrow> Client \<Rightarrow> json" where
  "to_dict e w c =
     JObj [(''id'', JNum (int (Client.id c))),
           (''client_id'', JStr (Client.client_id c)),
           (''first_name'', JStr (first_name c)),
           (''last_name'', JStr (last_name c)),
           (''email'', JStr (email c)),
           (''phone'', opt_json (phone c)),
           (''dob'', opt_json (dob c)),
           (''address'', JObj [(''street'', opt_json (street c)),
                               (''city'', opt_json (city c)),
                               (''state'', opt_json (state c)),
                               (''zip'', opt_json (zip_code c)),
                               (''country'', opt_json (country c))]),
           (''notes'', opt_json (notes' c)),
           (''pictures'', JArr (map (picture_to_dict e) (pictures w c))),
           (''created_at'', JStr (isoformat e (created_at c)))]"

text \<open>\<^verbatim>\<open>Client.query.filter_by(client_id=v).first()\<close>\<close>

definition first_by_client_id :: "env \<Rightarrow> world \<Rightarrow> json \<Rightarrow> exn + Client option" where
  "first_by_client_id e w v =
     and_then (match_value e v) (\<lambda>p. Inr (find (\<lambda>c. p (Client.client_id c)) (clients w)))"

section \<open>Routes\<close>

subsection \<open>POST /api/get-upload-url\<close>

record presign_request =
  ClientMethod :: string
  Bucket :: "string option"
  Key :: string
  ContentType :: json
  ExpiresIn :: nat

definition make_s3_key :: "env \<Rightarrow> json \<Rightarrow> string \<Rightarrow> json \<Rightarrow> string" where
  "make_s3_key e client_id' uuid4 file_name' =
     ''clients/'' @ format_value e client_id' @ ''/'' @ uuid4 @ ''_'' @ format_value e file_name'"

text \<open>
  \<open>generate_presigned_url\<close> is the method of the boto3 client and \<open>uuid4\<close> the text of
  the value \<^verbatim>\<open>uuid.uuid4()\<close> draws during the call.
\<close>

definition get_upload_url ::
  "env \<Rightarrow> (presign_request \<Rightarrow> string s3_result) \<Rightarrow> string \<Rightarrow> world \<Rightarrow> json
     \<Rightarrow> response \<times> world" where
  "get_upload_url e generate_presigned_url uuid4 w data =
     (case dict_get data ''fileName'' (JStr ''file'') of
        Inl x \<Rightarrow> (Inl (Raised x), w)
      | Inr file_name' \<Rightarrow>
     (case dict_get data ''fileType'' (JStr ''application/octet-stream'') of
        Inl x \<Rightarrow> (Inl (Raised x), w)
      | Inr file_type' \<Rightarrow>
     (case dict_get data ''clientId'' (JStr ''unknown'') of
        Inl x \<Rightarrow> (Inl (Raised x), w)
      | Inr client_id' \<Rightarrow>
     (let s3_key' = make_s3_key e client_id' uuid4 file_name' in
      case generate_presigned_url
             \<lparr>ClientMethod = ''put_object'', Bucket = S3_BUCKET e, Key = s3_key',
              ContentType = file_type', ExpiresIn = 300\<rparr> of
        Returned presigned_url \<Rightarrow>
          (Inr (200, JObj [(''uploadUrl'', JStr presigned_url), (''key'', JStr s3_key')]), w)
      | ClientError msg \<Rightarrow> (Inr (500, JObj [(''error'', JStr msg)]), w)
      | Raises x \<Rightarrow> (Inl (Raised x), w)))))"

subsection \<open>POST /api/clients\<close>

text \<open>
  The constructor call \<^verbatim>\<open>Client(...)\<close> reads the body, then \<^verbatim>\<open>db.session.add\<close> and
  \<^verbatim>\<open>db.session.flush\<close> send the INSERT: the columns are checked against the schema, the
  row takes the next value of the counter and \<^verbatim>\<open>created_at\<close> takes its default, the
  first reading \<open>utcnow 0\<close> of the clock in this request.
\<close>

definition new_client :: "env \<Rightarrow> (nat \<Rightarrow> nat) \<Rightarrow> world \<Rightarrow> json \<Rightarrow> exn + Client" where
  "new_client e utcnow w data =
     and_then (dict_get data ''address'' (JObj [])) (\<lambda>address.
     and_then (dict_get data ''clientId'' JNull) (\<lambda>client_id'.
     and_then (dict_get data ''firstName'' JNull) (\<lambda>first_name'.
     and_then (dict_get data ''lastName'' JNull) (\<lambda>last_name'.
     and_then (dict_get data ''email'' JNull) (\<lambda>email'.
     and_then (dict_get data ''phone'' JNull) (\<lambda>phone'.
     and_then (dict_get data ''dob'' JNull) (\<lambda>dob'.
     and_then (dict_get address ''street'' JNull) (\<lambda>street'.
     and_then (dict_get address ''city'' JNull) (\<lambda>city'.
     and_then (dict_get address ''state'' JNull) (\<lambda>state'.
     and_then (dict_get address ''zip'' JNull) (\<lambda>zip_code'.
     and_then (dict_get address ''country'' JNull) (\<lambda>country'.
     and_then (dict_get data ''notes'' JNull) (\<lambda>notes''.
     and_then (not_null (db_String 50 (store_value e client_id'))) (\<lambda>c_client_id.
     and_then (not_null (db_String 100 (store_value e first_name'))) (\<lambda>c_first_name.
     and_then (not_null (db_String 100 (store_value e last_name'))) (\<lambda>c_last_name.
     and_then (not_null (db_String 150 (store_value e email'))) (\<lambda>c_email.
     and_then (db_String 30 (store_value e phone')) (\<lambda>c_phone.
     and_then (db_String 20 (store_value e dob')) (\<lambda>c_dob.
     and_then (db_String 255 (store_value e street')) (\<lambda>c_street.
     and_then (db_String 100 (store_value e city')) (\<lambda>c_city.
     and_then (db_String 100 (store_value e state')) (\<lambda>c_state.
     and_then (db_String 20 (store_value e zip_code')) (\<lambda>c_zip_code.
     and_then (db_String 100 (store_value e country')) (\<lambda>c_country.
     and_then (store_value e notes'') (\<lambda>c_notes.
       if c_client_id \<in> set (map Client.client_id (clients w)) then Inl DatabaseError
       else Inr \<lparr>Client.id = next_client_id w, client_id = c_client_id,
                 first_name = c_first_name, last_name = c_last_name, email = c_email,
                 phone = c_phone, dob = c_dob, street = c_street, city = c_city,
                 state = c_state, zip_code = c_zip_code, country = c_country,
                 notes' = c_notes, created_at = utcnow 0\<rparr>
     )))))))))))))))))))))))))"

text \<open>The body of the loop: \<^verbatim>\<open>ClientPicture(...)\<close> reads one descriptor.\<close>

definition picture_args :: "json \<Rightarrow> exn + json \<times> json \<times> json" where
  "picture_args pic =
     and_then (dict_get pic ''key'' JNull) (\<lambda>s3_key'.
     and_then (dict_get pic ''fileName'' JNull) (\<lambda>file_name'.
     and_then (dict_get pic ''fileType'' JNull) (\<lambda>file_type'.
       Inr (s3_key', file_name', file_type'))))"

text \<open>
  The INSERT of the \<open>i\<close>-th picture, sent by \<^verbatim>\<open>db.session.commit\<close>; its
  \<^verbatim>\<open>uploaded_at\<close> is the next reading of the clock.
\<close>

definition new_picture ::
  "env \<Rightarrow> (nat \<Rightarrow> nat) \<Rightarrow> world \<Rightarrow> Client \<Rightarrow> nat \<times> json \<times> json \<times> json
     \<Rightarrow> exn + ClientPicture" where
  "new_picture e utcnow w client a =
     (case a of (i, s3_key', file_name', file_type') \<Rightarrow>
     and_then (not_null (db_String 500 (store_value e s3_key'))) (\<lambda>p_s3_key.
     and_then (db_String 255 (store_value e file_name')) (\<lambda>p_file_name.
     and_then (db_String 100 (store_value e file_type')) (\<lambda>p_file_type.
       Inr \<lparr>ClientPicture.id = next_picture_id w + i, client_id = Client.id client,
            s3_key = p_s3_key, file_name = p_file_name, file_type = p_file_type,
            uploaded_at = utcnow (Suc i)\<rparr>))))"

definition new_pictures ::
  "env \<Rightarrow> (nat \<Rightarrow> nat) \<Rightarrow> world \<Rightarrow> Client \<Rightarrow> json \<Rightarrow> exn + ClientPicture list" where
  "new_pictures e utcnow w client data =
     and_then (dict_get data ''pictures'' (JArr [])) (\<lambda>v.
     and_then (iterate v) (\<lambda>pics.
     and_then (try_all picture_args pics) (\<lambda>args.
       try_all (new_picture e utcnow w client) (zip [0..<length args] args))))"

text \<open>
  \<open>utcnow\<close> gives the successive readings of \<^verbatim>\<open>datetime.utcnow\<close> during the request.
  An exception ends the request before the transaction is committed, so nothing of it is
  stored.
\<close>

definition create_client ::
  "env \<Rightarrow> (nat \<Rightarrow> nat) \<Rightarrow> world \<Rightarrow> json \<Rightarrow> response \<times> world" where
  "create_client e utcnow w data =
     (case dict_get data ''clientId'' JNull of
        Inl x \<Rightarrow> (Inl (Raised x), w)
      | Inr client_id' \<Rightarrow>
     (case first_by_client_id e w client_id' of
        Inl x \<Rightarrow> (Inl (Raised x), w)
      | Inr (Some existing) \<Rightarrow>
          (Inr (409, JObj [(''error'', JStr ''Client ID already exists'')]), w)
      | Inr None \<Rightarrow>
     (case new_client e utcnow w data of
        Inl x \<Rightarrow> (Inl (Raised x), w)
      | Inr client \<Rightarrow>
     (case new_pictures e utcnow w client data of
        Inl x \<Rightarrow> (Inl (Raised x), w)
      | Inr pics \<Rightarrow>
          (Inr (201, JObj [(''message'', JStr ''Client registered''),
                           (''clientId'', JStr (Client.client_id client)),
                           (''id'', JNum (int (Client.id client)))]),
           w\<lparr>clients := clients w @ [client],
             client_pictures := client_pictures w @ pics,
             next_client_id := Suc (next_client_id w),
             next_picture_id := next_picture_id w + length pics\<rparr>)))))"

subsection \<open>GET /api/clients\<close>

text \<open>
  \<^verbatim>\<open>order_by(Client.created_at.desc())\<close>; rows with the same \<^verbatim>\<open>created_at\<close> stay in the
  order of the table.
\<close>

definition order_by_created_at_desc :: "Client list \<Rightarrow> Client list" where
  "order_by_created_at_desc cs = rev (sort_key created_at (rev cs))"

definition get_clients :: "env \<Rightarrow> world \<Rightarrow> response \<times> world" where
  "get_clients e w =
     (Inr (200, JArr (map (to_dict e w) (order_by_created_at_desc (clients w)))), w)"

subsection \<open>GET /api/clients/<client_id>\<close>

text \<open>The argument is the value the route hands to the view function for \<^verbatim>\<open><client_id>\<close>.\<close>

definition get_client :: "env \<Rightarrow> world \<Rightarrow> string \<Rightarrow> response \<times> world" where
  "get_client e w client_id' =
     (case first_by_client_id e w (JStr client_id') of
        Inl x \<Rightarrow> (Inl (Raised x), w)
      | Inr None \<Rightarrow> (Inl NotFound, w)
      | Inr (Some client) \<Rightarrow> (Inr (200, to_dict e w client), w))"

subsection \<open>DELETE /api/clients/<client_id>\<close>

text \<open>
  One turn of the loop over \<^verbatim>\<open>client.pictures\<close>: the object goes when the store deletes
  it, a \<^verbatim>\<open>ClientError\<close> is passed over, and any other exception leaves the loop.
\<close>

definition delete_file ::
  "env \<Rightarrow> (string option \<Rightarrow> string \<Rightarrow> unit s3_result) \<Rightarrow> world \<Rightarrow> ClientPicture
     \<Rightarrow> exn + world" where
  "delete_file e delete_object w pic =
     (case delete_object (S3_BUCKET e) (s3_key pic) of
        Returned u \<Rightarrow> Inr (w\<lparr>objects := objects w - {s3_key pic}\<rparr>)
      | ClientError msg \<Rightarrow> Inr w
      | Raises x \<Rightarrow> Inl x)"

text \<open>
  The loop. When it is left by an exception, the objects deleted so far stay deleted: the
  store takes no part in the transaction.
\<close>

fun delete_files ::
  "env \<Rightarrow> (string option \<Rightarrow> string \<Rightarrow> unit s3_result) \<Rightarrow> world \<Rightarrow> ClientPicture list
     \<Rightarrow> exn option \<times> world" where
  "delete_files e delete_object w [] = (None, w)"
| "delete_files e delete_object w (pic # pics) =
     (case delete_file e delete_object w pic of
        Inl x \<Rightarrow> (Some x, w)
      | Inr w' \<Rightarrow> delete_files e delete_object w' pics)"

text \<open>
  \<^verbatim>\<open>db.session.delete(client)\<close> with \<^verbatim>\<open>cascade='all, delete-orphan'\<close>: the pictures
  loaded in \<^verbatim>\<open>client.pictures\<close> are deleted by primary key, then the client is.
\<close>

definition session_delete :: "world \<Rightarrow> Client \<Rightarrow> world" where
  "session_delete w client =
     w\<lparr>client_pictures :=
         filter (\<lambda>p. ClientPicture.id p \<notin> set (map ClientPicture.id (pictures w client)))
           (client_pictures w),
       clients := filter (\<lambda>c. Client.id c \<noteq> Client.id client) (clients w)\<rparr>"

definition delete_client ::
  "env \<Rightarrow> (string option \<Rightarrow> string \<Rightarrow> unit s3_result) \<Rightarrow> world \<Rightarrow> string
     \<Rightarrow> response \<times> world" where
  "delete_client e delete_object w client_id' =
     (case first_by_client_id e w (JStr client_id') of
        Inl x \<Rightarrow> (Inl (Raised x), w)
      | Inr None \<Rightarrow> (Inl NotFound, w)
      | Inr (Some client) \<Rightarrow>
          (case delete_files e delete_object w (pictures w client) of
             (Some x, w') \<Rightarrow> (Inl (Raised x), w')
           | (None, w') \<Rightarrow>
               (Inr (200, JObj [(''message'', JStr (''Client '' @ client_id' @ '' deleted''))]),
                session_delete w' client)))"

section \<open>Sequences of requests\<close>

datatype call =
    GetUploadUrl "presign_request \<Rightarrow> string s3_result" string json
  | CreateClient "nat \<Rightarrow> nat" json
  | GetClients
  | GetClient string
  | DeleteClient "string option \<Rightarrow> string \<Rightarrow> unit s3_result" string

fun serve :: "env \<Rightarrow> world \<Rightarrow> call \<Rightarrow> response \<times> world" where
  "serve e w (GetUploadUrl generate_presigned_url uuid4 data) =
     get_upload_url e generate_presigned_url uuid4 w data"
| "serve e w (CreateClient utcnow data) = create_client e utcnow w data"
| "serve e w GetClients = get_clients e w"
| "serve e w (GetClient cid) = get_client e w cid"
| "serve e w (DeleteClient delete_object cid) = delete_client e delete_object w cid"

fun serve_all :: "env \<Rightarrow> world \<Rightarrow> call list \<Rightarrow> response list \<times> world" where
  "serve_all e w [] = ([], w)"
| "serve_all e w (c # cs) =
     (case serve e w c of (r, w') \<Rightarrow>
        (case serve_all e w' cs of (rs, w'') \<Rightarrow> (r # rs, w'')))"

text \<open>
  What the schema keeps true of every stored state: \<^verbatim>\<open>client_id\<close> is unique, and the
  primary keys and foreign keys in use were handed out by the counter of \<^verbatim>\<open>clients\<close>.
\<close>

definition consistent :: "world \<Rightarrow> bool" where
  "consistent w \<longleftrightarrow>
     distinct (map Client.client_id (clients w)) \<and>
     (\<forall>c \<in> set (clients w). Client.id c < next_client_id w) \<and>
     (\<forall>p \<in> set (client_pictures w). ClientPicture.client_id p < next_client_id w)"

text \<open>The identifiers returned by the calls that answered 201.\<close>

fun created_ids :: "response list \<Rightarrow> json list" where
  "created_ids [] = []"
| "created_ids (Inr (status, body) # rs) =
     (if status = 201 then (case dict_get body ''clientId'' JNull of Inr v \<Rightarrow> [v] | Inl x \<Rightarrow> [])
      else []) @ created_ids rs"
| "created_ids (Inl x # rs) = created_ids rs"

section \<open>Examples\<close>

text \<open>A configuration for the worked examples: the bucket is named \<open>vault\<close>.\<close>

definition example_env :: env where
  "example_env = \<lparr>S3_BUCKET = Some ''vault'', str_other = (\<lambda>v. ''?''),
     store_other = (\<lambda>v. None), match_other = (\<lambda>v. None), isoformat = (\<lambda>t. ''T'')\<rparr>"

definition example_client :: json where
  "example_client =
     JObj [(''clientId'', JStr ''C123''), (''firstName'', JStr ''Ada''),
           (''lastName'', JStr ''Lovelace''), (''email'', JStr ''ada@example.org''),
           (''address'', JObj [(''street'', JStr ''1 Main St''), (''city'', JStr ''Springfield''),
                               (''state'', JStr ''IL''), (''zip'', JStr ''62701''),
                               (''country'', JStr ''US'')]),
           (''pictures'', JArr [JObj [(''key'', JStr ''clients/C123/6f1c_photo.png''),
                                      (''fileName'', JStr ''photo.png''),
                                      (''fileType'', JStr ''image/png'')],
                                JObj [(''key'', JStr ''clients/C123/a02b_id.jpg'')]])]"

definition example_world :: world where
  "example_world = snd (create_client example_env (\<lambda>i. 1000 + i) empty_world example_client)"

definition example_other :: json where
  "example_other =
     JObj [(''clientId'', JStr ''C124''), (''firstName'', JStr ''Alan''),
           (''lastName'', JStr ''Turing''), (''email'', JStr ''alan@example.org'')]"

definition example_third :: json where
  "example_third =
     JObj [(''clientId'', JStr ''C125''), (''firstName'', JStr ''Grace''),
           (''lastName'', JStr ''Hopper''), (''email'', JStr ''grace@example.org''),
           (''pictures'', JArr [JObj [(''key'', JStr ''clients/C125/77aa_badge.png'')]])]"

definition example_three :: world where
  "example_three =
     snd (serve_all example_env example_world
            [CreateClient (\<lambda>i. 3000 + i) example_other,
             CreateClient (\<lambda>i. 2000 + i) example_third])"

text \<open>
  An upload request, a store client that signs every request, one that has no credentials,
  and one that cannot reach its endpoint.
\<close>

definition example_upload :: json where
  "example_upload =
     JObj [(''fileName'', JStr ''photo.png''), (''fileType'', JStr ''image/png''),
           (''clientId'', JStr ''C123'')]"

definition example_presign :: "presign_request \<Rightarrow> string s3_result" where
  "example_presign r = Returned (''https://signed.example/'' @ Key r)"

definition no_credentials :: "presign_request \<Rightarrow> string s3_result" where
  "no_credentials r = Raises NoCredentialsError"



section \<open>Facts about the primitives and the handlers\<close>

text \<open>When the steps of a handler succeed.\<close>

lemma and_then_Inr [simp]: "and_then m f = Inr y \<longleftrightarrow> (\<exists>a. m = Inr a \<and> f a = Inr y)"
  by (cases m) (simp_all add: and_then_def)

lemma not_null_Inr [simp]: "not_null v = Inr s \<longleftrightarrow> v = Inr (Some s)"
  by (auto simp: not_null_def split: sum.splits option.splits)

lemma db_String_Inr [simp]:
  "db_String n v = Inr r \<longleftrightarrow> v = Inr r \<and> (\<forall>s. r = Some s \<longrightarrow> length s \<le> n)"
  by (auto simp: db_String_def split: sum.splits option.splits)

lemma try_all_Inr: "try_all f xs = Inr ys \<longleftrightarrow> list_all2 (\<lambda>x y. f x = Inr y) xs ys"
proof (induction xs arbitrary: ys)
  case Nil
  show ?case by auto
next
  case (Cons x xs)
  show ?case by (cases ys) (auto simp: Cons.IH)
qed

lemma dict_get_JObj [simp]:
  "dict_get (JObj kvs) k dflt = Inr (case map_of kvs k of None \<Rightarrow> dflt | Some v \<Rightarrow> v)"
  by (simp add: dict_get_def)

lemma new_client_Inr:
  assumes "new_client e utcnow w data = Inr c"
  shows "Client.id c = next_client_id w"
    and "Client.client_id c \<notin> set (map Client.client_id (clients w))"
    and "created_at c = utcnow 0"
    and "dict_get data ''clientId'' JNull = Inr (JStr s) \<Longrightarrow> Client.client_id c = s"
  using assms by (auto simp: new_client_def split: if_splits)

lemma new_client_address:
  assumes "new_client e utcnow w data = Inr c"
    and "dict_get data ''address'' (JObj []) = Inr a"
  shows "dict_get a ''street'' JNull = Inr (JStr v) \<Longrightarrow> street c = Some v"
    and "dict_get a ''city'' JNull = Inr (JStr v) \<Longrightarrow> city c = Some v"
    and "dict_get a ''state'' JNull = Inr (JStr v) \<Longrightarrow> state c = Some v"
    and "dict_get a ''zip'' JNull = Inr (JStr v) \<Longrightarrow> zip_code c = Some v"
    and "dict_get a ''country'' JNull = Inr (JStr v) \<Longrightarrow> country c = Some v"
  using assms by (auto simp: new_client_def split: if_splits)

lemma new_picture_Inr:
  assumes "new_picture e utcnow w c (i, k, n, t) = Inr p"
  shows "ClientPicture.client_id p = Client.id c"
    and "ClientPicture.id p = next_picture_id w + i"
    and "k = JStr key \<Longrightarrow> s3_key p = key"
  using assms by (auto simp: new_picture_def)

lemma picture_args_Inr:
  "picture_args pic = Inr a \<Longrightarrow> dict_get pic ''key'' JNull = Inr (fst a)"
  by (auto simp: picture_args_def)

lemma new_pictures_Inr:
  assumes "new_pictures e utcnow w c data = Inr ps"
  shows "\<exists>v pics. dict_get data ''pictures'' (JArr []) = Inr v \<and> iterate v = Inr pics
           \<and> length ps = length pics
           \<and> (\<forall>p \<in> set ps. ClientPicture.client_id p = Client.id c)
           \<and> (\<forall>i < length pics. \<forall>key. dict_get (pics ! i) ''key'' JNull = Inr (JStr key)
                  \<longrightarrow> s3_key (ps ! i) = key)"
proof -
  from assms obtain v pics args where v: "dict_get data ''pictures'' (JArr []) = Inr v"
    and pics: "iterate v = Inr pics"
    and args: "try_all picture_args pics = Inr args"
    and rows: "try_all (new_picture e utcnow w c) (zip [0..<length args] args) = Inr ps"
    by (auto simp: new_pictures_def)
  from args have a2: "list_all2 (\<lambda>pic a. picture_args pic = Inr a) pics args"
    by (simp add: try_all_Inr)
  from rows have r2: "list_all2 (\<lambda>ia p. new_picture e utcnow w c ia = Inr p)
      (zip [0..<length args] args) ps"
    by (simp add: try_all_Inr)
  have len_a: "length pics = length args" using a2 by (rule list_all2_lengthD)
  have len_p: "length ps = length args" using list_all2_lengthD [OF r2] by simp
  have row: "new_picture e utcnow w c (i, args ! i) = Inr (ps ! i)" if "i < length args" for i
    using list_all2_nthD [OF r2, of i] that by simp
  have fk: "\<forall>p \<in> set ps. ClientPicture.client_id p = Client.id c"
  proof
    fix p assume "p \<in> set ps"
    then obtain i where i: "i < length ps" and p: "p = ps ! i" by (auto simp: in_set_conv_nth)
    from i len_p have "new_picture e utcnow w c (i, args ! i) = Inr (ps ! i)" by (simp add: row)
    then show "ClientPicture.client_id p = Client.id c"
      unfolding p by (cases "args ! i") (auto dest: new_picture_Inr(1))
  qed
  have keys: "\<forall>i < length pics. \<forall>key. dict_get (pics ! i) ''key'' JNull = Inr (JStr key)
      \<longrightarrow> s3_key (ps ! i) = key"
  proof (intro allI impI)
    fix i key assume i: "i < length pics"
      and k: "dict_get (pics ! i) ''key'' JNull = Inr (JStr key)"
    from list_all2_nthD [OF a2 i] have "picture_args (pics ! i) = Inr (args ! i)" .
    from picture_args_Inr [OF this] k have fst: "fst (args ! i) = JStr key" by simp
    from i len_a have "new_picture e utcnow w c (i, args ! i) = Inr (ps ! i)" by (simp add: row)
    with fst show "s3_key (ps ! i) = key"
      by (cases "args ! i") (auto dest: new_picture_Inr(3))
  qed
  from v pics len_a len_p fk keys show ?thesis by auto
qed

lemma create_client_cases:
  assumes "create_client e utcnow w data = (r, w')"
  shows "(w' = w \<and> (\<forall>body. r \<noteq> Inr (201, body))) \<or>
     (\<exists>c ps. new_client e utcnow w data = Inr c \<and>
      new_pictures e utcnow w c data = Inr ps \<and>
      r = Inr (201, JObj [(''message'', JStr ''Client registered''),
                           (''clientId'', JStr (Client.client_id c)),
                           (''id'', JNum (int (Client.id c)))]) \<and>
      w' = w\<lparr>clients := clients w @ [c], client_pictures := client_pictures w @ ps,
              next_client_id := Suc (next_client_id w),
              next_picture_id := next_picture_id w + length ps\<rparr>)"
proof (cases "dict_get data ''clientId'' JNull")
  case (Inl x)
  with assms show ?thesis by (auto simp: create_client_def)
next
  case cid: (Inr v)
  show ?thesis
  proof (cases "first_by_client_id e w v")
    case (Inl x)
    with assms cid show ?thesis by (auto simp: create_client_def)
  next
    case found: (Inr f)
    show ?thesis
    proof (cases f)
      case (Some existing)
      with assms cid found show ?thesis by (auto simp: create_client_def)
    next
      case None
      show ?thesis
      proof (cases "new_client e utcnow w data")
        case (Inl x)
        with assms cid found None show ?thesis by (auto simp: create_client_def)
      next
        case c: (Inr c)
        show ?thesis
        proof (cases "new_pictures e utcnow w c data")
          case (Inl x)
          with assms cid found None c show ?thesis by (auto simp: create_client_def)
        next
          case (Inr ps)
          with assms cid found None c show ?thesis by (auto simp: create_client_def)
        qed
      qed
    qed
  qed
qed

text \<open>The handlers keep the state consistent.\<close>

lemma consistent_empty: "consistent empty_world"
  by (simp add: consistent_def empty_world_def)

lemma consistent_create:
  assumes "consistent w"
  shows "consistent (snd (create_client e utcnow w data))"
proof (cases "create_client e utcnow w data")
  case (Pair r w')
  from create_client_cases [OF Pair] show ?thesis
  proof (elim disjE conjE exE)
    assume "w' = w"
    with Pair assms show ?thesis by simp
  next
    fix c ps
    assume c: "new_client e utcnow w data = Inr c"
      and ps: "new_pictures e utcnow w c data = Inr ps"
      and w': "w' = w\<lparr>clients := clients w @ [c], client_pictures := client_pictures w @ ps,
              next_client_id := Suc (next_client_id w),
              next_picture_id := next_picture_id w + length ps\<rparr>"
    from new_pictures_Inr [OF ps]
    have fk: "\<forall>p \<in> set ps. ClientPicture.client_id p = Client.id c" by blast
    from assms w' new_client_Inr(1,2) [OF c] fk Pair
    show ?thesis by (auto simp: consistent_def less_Suc_eq)
  qed
qed

lemma delete_file_tables:
  assumes "delete_file e del w p = Inr w'"
  shows "clients w' = clients w" and "client_pictures w' = client_pictures w"
    and "next_client_id w' = next_client_id w" and "next_picture_id w' = next_picture_id w"
  using assms by (auto simp: delete_file_def split: s3_result.splits)

lemma delete_files_tables [simp]:
  "clients (snd (delete_files e del w ps)) = clients w"
  "client_pictures (snd (delete_files e del w ps)) = client_pictures w"
  "next_client_id (snd (delete_files e del w ps)) = next_client_id w"
  "next_picture_id (snd (delete_files e del w ps)) = next_picture_id w"
  by (induction ps arbitrary: w; simp split: sum.splits add: delete_file_tables)+

lemma pictures_delete_files [simp]:
  "pictures (snd (delete_files e del w ps)) c = pictures w c"
  by (simp add: pictures_def)

lemma consistent_delete_files: "consistent w \<Longrightarrow> consistent (snd (delete_files e del w ps))"
  by (simp add: consistent_def)



lemma consistent_session_delete:
  assumes "consistent w"
    and "clients w1 = clients w" "client_pictures w1 = client_pictures w"
    and "next_client_id w1 = next_client_id w"
  shows "consistent (session_delete w1 c)"
  using assms by (auto simp: consistent_def session_delete_def distinct_map_filter)

lemma consistent_delete:
  assumes "consistent w"
  shows "consistent (snd (delete_client e del w cid))"
proof (cases "first_by_client_id e w (JStr cid)")
  case (Inl x)
  with assms show ?thesis by (simp add: delete_client_def)
next
  case (Inr f)
  show ?thesis
  proof (cases f)
    case None
    with Inr assms show ?thesis by (simp add: delete_client_def)
  next
    case (Some c)
    obtain r w1 where loop: "delete_files e del w (pictures w c) = (r, w1)"
      by (cases "delete_files e del w (pictures w c)")
    from loop have w1: "w1 = snd (delete_files e del w (pictures w c))" by simp
    have kept: "consistent w1" unfolding w1 using assms by (rule consistent_delete_files)
    have gone: "consistent (session_delete w1 c)"
      using assms by (rule consistent_session_delete) (simp_all add: w1)
    from Inr Some loop kept gone show ?thesis
      by (cases r) (simp_all add: delete_client_def)
  qed
qed

lemma snd_get_upload_url [simp]: "snd (get_upload_url e g tok w data) = w"
  by (simp add: get_upload_url_def Let_def split: sum.splits s3_result.splits)

lemma snd_get_client [simp]: "snd (get_client e w cid) = w"
  by (simp add: get_client_def split: sum.splits option.splits)

lemma consistent_serve: "consistent w \<Longrightarrow> consistent (snd (serve e w c))"
  by (cases c) (simp_all add: consistent_create consistent_delete get_clients_def)

lemma snd_serve_all_Cons:
  "snd (serve_all e w (c # cs)) = snd (serve_all e (snd (serve e w c)) cs)"
  by (simp split: prod.splits)

lemma consistent_serve_all: "consistent w \<Longrightarrow> consistent (snd (serve_all e w cs))"
proof (induction cs arbitrary: w)
  case Nil
  then show ?case by simp
next
  case (Cons c cs)
  from consistent_serve [OF Cons.prems] have "consistent (snd (serve e w c))" .
  from Cons.IH [OF this] show ?case by (simp only: snd_serve_all_Cons)
qed

text \<open>Every state reached by serving requests from the empty database is consistent.\<close>

lemma reachable_consistent: "consistent (snd (serve_all e empty_world cs))"
  by (rule consistent_serve_all) (rule consistent_empty)

text \<open>Reading back what \<open>create_client\<close> has stored.\<close>

lemma find_client_id_append:
  assumes "cid \<notin> set (map Client.client_id cs)" and "Client.client_id c = cid"
  shows "find (\<lambda>r. Client.client_id r = cid) (cs @ [c]) = Some c"
  using assms by (induction cs) auto

lemma first_by_client_id_JStr [simp]:
  "first_by_client_id e w (JStr cid) = Inr (find (\<lambda>c. Client.client_id c = cid) (clients w))"
  by (simp add: first_by_client_id_def and_then_def)

lemma get_created:
  assumes "consistent w"
    and c: "new_client e utcnow w data = Inr c"
    and ps: "new_pictures e utcnow w c data = Inr ps"
    and w': "w' = w\<lparr>clients := clients w @ [c], client_pictures := client_pictures w @ ps,
              next_client_id := Suc (next_client_id w),
              next_picture_id := next_picture_id w + length ps\<rparr>"
  shows "get_client e w' (Client.client_id c) = (Inr (200, to_dict e w' c), w')"
    and "pictures w' c = ps"
proof -
  from new_client_Inr(2) [OF c]
  have "find (\<lambda>r. Client.client_id r = Client.client_id c) (clients w @ [c]) = Some c"
    by (intro find_client_id_append) simp_all
  then show "get_client e w' (Client.client_id c) = (Inr (200, to_dict e w' c), w')"
    by (simp add: get_client_def w')
  from new_pictures_Inr [OF ps]
  have fk: "\<forall>p \<in> set ps. ClientPicture.client_id p = Client.id c" by blast
  from assms(1) new_client_Inr(1) [OF c]
  have old: "\<forall>p \<in> set (client_pictures w). ClientPicture.client_id p \<noteq> Client.id c"
    by (auto simp: consistent_def)
  from old have "filter (\<lambda>p. ClientPicture.client_id p = Client.id c) (client_pictures w) = []"
    by (simp add: filter_empty_conv)
  moreover from fk have "filter (\<lambda>p. ClientPicture.client_id p = Client.id c) ps = ps"
    by (simp add: filter_id_conv)
  ultimately show "pictures w' c = ps"
    by (simp add: pictures_def w')
qed

lemma to_dict_fields:
  "dict_get (to_dict e w c) ''pictures'' JNull = Inr (JArr (map (picture_to_dict e) (pictures w c)))"
  "dict_get (to_dict e w c) ''address'' JNull
     = Inr (JObj [(''street'', opt_json (street c)), (''city'', opt_json (city c)),
                  (''state'', opt_json (state c)), (''zip'', opt_json (zip_code c)),
                  (''country'', opt_json (country c))])"
  by (simp_all add: to_dict_def)

lemma picture_to_dict_fields:
  "dict_get (picture_to_dict e p) ''s3_key'' JNull = Inr (JStr (s3_key p))"
  "dict_get (picture_to_dict e p) ''url'' JNull
     = Inr (JStr (''https://'' @ format_opt (S3_BUCKET e) @ ''.s3.amazonaws.com/'' @ s3_key p))"
  by (simp_all add: picture_to_dict_def)

text \<open>The identifiers stored by a sequence of calls of \<open>create_client\<close>.\<close>

lemma created_ids_Cons: "created_ids (r # rs) = created_ids [r] @ created_ids rs"
  by (cases r) (auto split: prod.splits)

lemma create_client_stored:
  assumes "create_client e utcnow w data = (r, w')"
  shows "\<exists>new. map Client.client_id (clients w') = map Client.client_id (clients w) @ new
           \<and> created_ids [r] = map JStr new
           \<and> set new \<inter> set (map Client.client_id (clients w)) = {}
           \<and> length new \<le> 1"
  using create_client_cases [OF assms]
proof (elim disjE conjE exE)
  assume "w' = w" and no: "\<forall>body. r \<noteq> Inr (201, body)"
  from no have "created_ids [r] = []"
    by (cases r) (auto split: prod.splits)
  with \<open>w' = w\<close> show ?thesis by simp
next
  fix c rows
  assume c: "new_client e utcnow w data = Inr c"
    and r: "r = Inr (201, JObj [(''message'', JStr ''Client registered''),
                           (''clientId'', JStr (Client.client_id c)),
                           (''id'', JNum (int (Client.id c)))])"
    and w': "w' = w\<lparr>clients := clients w @ [c], client_pictures := client_pictures w @ rows,
              next_client_id := Suc (next_client_id w),
              next_picture_id := next_picture_id w + length rows\<rparr>"
  have "map Client.client_id (clients w') = map Client.client_id (clients w) @ [Client.client_id c]"
    by (simp add: w')
  moreover have "created_ids [r] = map JStr [Client.client_id c]"
    by (simp add: r)
  moreover have "set [Client.client_id c] \<inter> set (map Client.client_id (clients w)) = {}"
    using new_client_Inr(2) [OF c] by simp
  ultimately show ?thesis by (intro exI [of _ "[Client.client_id c]"]) simp
qed

lemma serve_all_creates_stored:
  "\<exists>new. map Client.client_id (clients (snd (serve_all e w (map (case_prod CreateClient) reqs))))
            = map Client.client_id (clients w) @ new
         \<and> created_ids (fst (serve_all e w (map (case_prod CreateClient) reqs))) = map JStr new
         \<and> (distinct (map Client.client_id (clients w))
              \<longrightarrow> distinct (map Client.client_id (clients w) @ new))"
proof (induction reqs arbitrary: w)
  case Nil
  show ?case by simp
next
  case (Cons q reqs)
  obtain utcnow data where q: "q = (utcnow, data)" by (cases q)
  obtain r w1 where step: "create_client e utcnow w data = (r, w1)"
    by (cases "create_client e utcnow w data")
  from create_client_stored [OF step] obtain new1
    where s1: "map Client.client_id (clients w1) = map Client.client_id (clients w) @ new1"
      and c1: "created_ids [r] = map JStr new1"
      and d1: "set new1 \<inter> set (map Client.client_id (clients w)) = {}"
      and l1: "length new1 \<le> 1"
    by blast
  from Cons.IH [of w1] obtain new2
    where s2: "map Client.client_id (clients (snd (serve_all e w1 (map (case_prod CreateClient) reqs))))
            = map Client.client_id (clients w1) @ new2"
      and c2: "created_ids (fst (serve_all e w1 (map (case_prod CreateClient) reqs))) = map JStr new2"
      and d2: "distinct (map Client.client_id (clients w1))
              \<longrightarrow> distinct (map Client.client_id (clients w1) @ new2)"
    by blast
  have run: "serve_all e w (map (case_prod CreateClient) (q # reqs))
      = (r # fst (serve_all e w1 (map (case_prod CreateClient) reqs)),
         snd (serve_all e w1 (map (case_prod CreateClient) reqs)))"
    by (simp add: q step split: prod.splits)
  have dn1: "distinct new1" using l1 by (cases new1) auto
  have a: "map Client.client_id (clients (snd (serve_all e w (map (case_prod CreateClient) (q # reqs)))))
      = map Client.client_id (clients w) @ (new1 @ new2)"
    unfolding run snd_conv by (simp add: s2 s1)
  have b: "created_ids (fst (serve_all e w (map (case_prod CreateClient) (q # reqs))))
      = map JStr (new1 @ new2)"
    unfolding run fst_conv by (subst created_ids_Cons) (simp add: c1 c2)
  have c: "distinct (map Client.client_id (clients w))
      \<longrightarrow> distinct (map Client.client_id (clients w) @ (new1 @ new2))"
  proof
    assume "distinct (map Client.client_id (clients w))"
    with d1 dn1 have "distinct (map Client.client_id (clients w1))"
      unfolding s1 by auto
    with d2 show "distinct (map Client.client_id (clients w) @ (new1 @ new2))"
      unfolding s1 by simp
  qed
  from a b c show ?case by blast
qed

text \<open>The worked examples, evaluated.\<close>

lemmas eval_defs = create_client_def new_client_def new_pictures_def new_picture_def
  picture_args_def first_by_client_id_def and_then_def dict_get_def db_String_def not_null_def
  example_env_def example_client_def empty_world_def

lemma example_world_eval:
  "example_world =
     \<lparr>clients = [\<lparr>Client.id = 1, client_id = ''C123'', first_name = ''Ada'',
                   last_name = ''Lovelace'', email = ''ada@example.org'', phone = None,
                   dob = None, street = Some ''1 Main St'', city = Some ''Springfield'',
                   state = Some ''IL'', zip_code = Some ''62701'', country = Some ''US'',
                   notes' = None, created_at = 1000\<rparr>],
      client_pictures =
        [\<lparr>ClientPicture.id = 1, client_id = 1, s3_key = ''clients/C123/6f1c_photo.png'',
          file_name = Some ''photo.png'', file_type = Some ''image/png'', uploaded_at = 1001\<rparr>,
         \<lparr>ClientPicture.id = 2, client_id = 1, s3_key = ''clients/C123/a02b_id.jpg'',
          file_name = None, file_type = None, uploaded_at = 1002\<rparr>],
      next_client_id = 2, next_picture_id = 3, objects = {}\<rparr>"
  by (simp add: example_world_def eval_defs upt_rec)

lemma example_created:
  "create_client example_env (\<lambda>i. 1000 + i) empty_world example_client
     = (Inr (201, JObj [(''message'', JStr ''Client registered''),
                        (''clientId'', JStr ''C123''), (''id'', JNum 1)]), example_world)"
  unfolding example_world_eval by (simp add: eval_defs upt_rec)

lemma example_world_consistent: "consistent example_world"
  by (simp add: example_world_eval consistent_def)

lemmas show_defs = get_client_def get_clients_def delete_client_def session_delete_def
  delete_file_def pictures_def to_dict_def picture_to_dict_def opt_json_def format_opt_def
  order_by_created_at_desc_def

lemma example_three_eval:
  "example_three =
     \<lparr>clients =
        [\<lparr>Client.id = 1, client_id = ''C123'', first_name = ''Ada'',
          last_name = ''Lovelace'', email = ''ada@example.org'', phone = None,
          dob = None, street = Some ''1 Main St'', city = Some ''Springfield'',
          state = Some ''IL'', zip_code = Some ''62701'', country = Some ''US'',
          notes' = None, created_at = 1000\<rparr>,
         \<lparr>Client.id = 2, client_id = ''C124'', first_name = ''Alan'',
          last_name = ''Turing'', email = ''alan@example.org'', phone = None,
          dob = None, street = None, city = None, state = None, zip_code = None,
          country = None, notes' = None, created_at = 3000\<rparr>,
         \<lparr>Client.id = 3, client_id = ''C125'', first_name = ''Grace'',
          last_name = ''Hopper'', email = ''grace@example.org'', phone = None,
          dob = None, street = None, city = None, state = None, zip_code = None,
          country = None, notes' = None, created_at = 2000\<rparr>],
      client_pictures =
        [\<lparr>ClientPicture.id = 1, client_id = 1, s3_key = ''clients/C123/6f1c_photo.png'',
          file_name = Some ''photo.png'', file_type = Some ''image/png'', uploaded_at = 1001\<rparr>,
         \<lparr>ClientPicture.id = 2, client_id = 1, s3_key = ''clients/C123/a02b_id.jpg'',
          file_name = None, file_type = None, uploaded_at = 1002\<rparr>,
         \<lparr>ClientPicture.id = 3, client_id = 3, s3_key = ''clients/C125/77aa_badge.png'',
          file_name = None, file_type = None, uploaded_at = 2001\<rparr>],
      next_client_id = 4, next_picture_id = 4, objects = {}\<rparr>"
  by (simp add: example_three_def example_world_eval eval_defs example_other_def
      example_third_def upt_rec)


section \<open>Upload authorisation\<close>




text \<open>
  C6. The handler asks the store for one presigned URL: method \<open>put_object\<close>, the configured
  bucket, the key just built, the declared content type, and a validity of 300 seconds. When
  the store returns a URL for that request the answer is 200 with the URL and the key, and
  the stored state, objects included, is as before.
\<close>

theorem get_upload_url_grant:
  assumes "dict_get data ''fileName'' (JStr ''file'') = Inr fname"
    and "dict_get data ''fileType'' (JStr ''application/octet-stream'') = Inr ftype"
    and "dict_get data ''clientId'' (JStr ''unknown'') = Inr cid"
    and "generate_presigned_url
           \<lparr>ClientMethod = ''put_object'', Bucket = S3_BUCKET e,
            Key = make_s3_key e cid tok fname, ContentType = ftype, ExpiresIn = 300\<rparr>
         = Returned url"
  shows "get_upload_url e generate_presigned_url tok w data
         = (Inr (200, JObj [(''uploadUrl'', JStr url),
                            (''key'', JStr (make_s3_key e cid tok fname))]), w)"
  using assms by (simp add: get_upload_url_def)

theorem get_upload_url_grant_witness:
  "get_upload_url example_env
     (\<lambda>r. if r = \<lparr>ClientMethod = ''put_object'', Bucket = Some ''vault'',
                   Key = ''clients/C123/6f1c_photo.png'', ContentType = JStr ''image/png'',
                   ExpiresIn = 300\<rparr>
          then Returned ''https://signed.example/put'' else ClientError ''AccessDenied'')
     ''6f1c'' empty_world
     (JObj [(''fileName'', JStr ''photo.png''), (''fileType'', JStr ''image/png''),
            (''clientId'', JStr ''C123'')])
   = (Inr (200, JObj [(''uploadUrl'', JStr ''https://signed.example/put''),
                      (''key'', JStr ''clients/C123/6f1c_photo.png'')]), empty_world)"
  using get_upload_url_grant [where e = example_env and tok = "''6f1c''" and w = empty_world
      and data = "JObj [(''fileName'', JStr ''photo.png''), (''fileType'', JStr ''image/png''),
            (''clientId'', JStr ''C123'')]"
      and fname = "JStr ''photo.png''" and ftype = "JStr ''image/png''" and cid = "JStr ''C123''"
      and url = "''https://signed.example/put''"
      and generate_presigned_url = "\<lambda>r. if r = \<lparr>ClientMethod = ''put_object'',
                   Bucket = Some ''vault'',
                   Key = ''clients/C123/6f1c_photo.png'', ContentType = JStr ''image/png'',
                   ExpiresIn = 300\<rparr>
          then Returned ''https://signed.example/put'' else ClientError ''AccessDenied''"]
  by (simp add: dict_get_def make_s3_key_def example_env_def)

text \<open>
  C7, as the code has it. When \<^verbatim>\<open>generate_presigned_url\<close> raises \<^verbatim>\<open>ClientError\<close>, the
  handler returns 500 with the text of the error under \<open>error\<close>. An exception of another
  class, such as the one for missing credentials, is not caught: it leaves the handler, and
  there is no JSON body with a message. The stored state is as before in both cases.
\<close>

theorem get_upload_url_rejected:
  assumes "dict_get data ''fileName'' (JStr ''file'') = Inr fname"
    and "dict_get data ''fileType'' (JStr ''application/octet-stream'') = Inr ftype"
    and "dict_get data ''clientId'' (JStr ''unknown'') = Inr cid"
  shows "(generate_presigned_url
           \<lparr>ClientMethod = ''put_object'', Bucket = S3_BUCKET e,
            Key = make_s3_key e cid tok fname, ContentType = ftype, ExpiresIn = 300\<rparr>
          = ClientError msg
        \<longrightarrow> get_upload_url e generate_presigned_url tok w data
              = (Inr (500, JObj [(''error'', JStr msg)]), w))
    \<and> (generate_presigned_url
           \<lparr>ClientMethod = ''put_object'', Bucket = S3_BUCKET e,
            Key = make_s3_key e cid tok fname, ContentType = ftype, ExpiresIn = 300\<rparr>
          = Raises x
        \<longrightarrow> get_upload_url e generate_presigned_url tok w data = (Inl (Raised x), w))"
  using assms by (simp add: get_upload_url_def)

theorem get_upload_url_rejected_witness:
  "get_upload_url example_env (\<lambda>r. ClientError ''An error occurred (AccessDenied)'')
     ''6f1c'' empty_world example_upload
   = (Inr (500, JObj [(''error'', JStr ''An error occurred (AccessDenied)'')]), empty_world)
   \<and> get_upload_url example_env (\<lambda>r. Raises ParamValidationError)
     ''6f1c'' empty_world example_upload
   = (Inl (Raised ParamValidationError), empty_world)"
proof -
  have fields: "dict_get example_upload ''fileName'' (JStr ''file'') = Inr (JStr ''photo.png'')"
    "dict_get example_upload ''fileType'' (JStr ''application/octet-stream'')
       = Inr (JStr ''image/png'')"
    "dict_get example_upload ''clientId'' (JStr ''unknown'') = Inr (JStr ''C123'')"
    by (simp_all add: example_upload_def)
  from get_upload_url_rejected [OF fields,
      of "\<lambda>r. ClientError ''An error occurred (AccessDenied)''" example_env "''6f1c''"
        "''An error occurred (AccessDenied)''" empty_world]
    get_upload_url_rejected [OF fields,
      of "\<lambda>r. Raises ParamValidationError" example_env "''6f1c''" _ empty_world
        ParamValidationError]
  show ?thesis by simp
qed

text \<open>A store client without credentials: the handler returns no response of its own.\<close>

theorem get_upload_url_no_credentials_counterexample:
  "get_upload_url example_env no_credentials ''6f1c'' empty_world example_upload
     = (Inl (Raised NoCredentialsError), empty_world)"
  by (simp add: get_upload_url_def Let_def example_upload_def no_credentials_def)

text \<open>
  C10, as the code has it. When the body is a JSON object that lacks \<open>fileName\<close>,
  \<open>fileType\<close> or \<open>clientId\<close>, the call is served as the same body with \<open>file\<close>,
  \<open>application/octet-stream\<close> or \<open>unknown\<close> filled in; an object makes the handler raise only
  what the store client raises; and the empty object asks for the key
  \<open>clients/unknown/{token}_file\<close>. A body that is not an object, such as \<open>null\<close>, has no
  \<^verbatim>\<open>get\<close>: the handler raises \<^verbatim>\<open>AttributeError\<close>.
\<close>

theorem get_upload_url_defaults:
  "(map_of d ''fileName'' = None \<longrightarrow>
      get_upload_url e g tok w (JObj d)
        = get_upload_url e g tok w (JObj ((''fileName'', JStr ''file'') # d)))
   \<and> (map_of d ''fileType'' = None \<longrightarrow>
      get_upload_url e g tok w (JObj d)
        = get_upload_url e g tok w (JObj ((''fileType'', JStr ''application/octet-stream'') # d)))
   \<and> (map_of d ''clientId'' = None \<longrightarrow>
      get_upload_url e g tok w (JObj d)
        = get_upload_url e g tok w (JObj ((''clientId'', JStr ''unknown'') # d)))
   \<and> (fst (get_upload_url e g tok w (JObj d)) = Inl (Raised x) \<longrightarrow> (\<exists>r. g r = Raises x))
   \<and> get_upload_url e g tok w (JObj [])
        = (case g \<lparr>ClientMethod = ''put_object'', Bucket = S3_BUCKET e,
                    Key = ''clients/unknown/'' @ tok @ ''_file'',
                    ContentType = JStr ''application/octet-stream'', ExpiresIn = 300\<rparr> of
             Returned url \<Rightarrow>
               (Inr (200, JObj [(''uploadUrl'', JStr url),
                                (''key'', JStr (''clients/unknown/'' @ tok @ ''_file''))]), w)
           | ClientError msg \<Rightarrow> (Inr (500, JObj [(''error'', JStr msg)]), w)
           | Raises y \<Rightarrow> (Inl (Raised y), w))
   \<and> ((\<forall>kvs. data \<noteq> JObj kvs) \<longrightarrow>
        get_upload_url e g tok w data = (Inl (Raised AttributeError), w))"
proof -
  have name: "map_of d ''fileName'' = None \<longrightarrow>
      get_upload_url e g tok w (JObj d)
        = get_upload_url e g tok w (JObj ((''fileName'', JStr ''file'') # d))"
    by (simp add: get_upload_url_def dict_get_def)
  have type: "map_of d ''fileType'' = None \<longrightarrow>
      get_upload_url e g tok w (JObj d)
        = get_upload_url e g tok w (JObj ((''fileType'', JStr ''application/octet-stream'') # d))"
    by (simp add: get_upload_url_def dict_get_def)
  have client: "map_of d ''clientId'' = None \<longrightarrow>
      get_upload_url e g tok w (JObj d)
        = get_upload_url e g tok w (JObj ((''clientId'', JStr ''unknown'') # d))"
    by (simp add: get_upload_url_def dict_get_def)
  have store: "fst (get_upload_url e g tok w (JObj d)) = Inl (Raised x)
      \<longrightarrow> (\<exists>r. g r = Raises x)"
    by (auto simp: get_upload_url_def dict_get_def Let_def split: s3_result.splits)
  have empty: "get_upload_url e g tok w (JObj [])
        = (case g \<lparr>ClientMethod = ''put_object'', Bucket = S3_BUCKET e,
                    Key = ''clients/unknown/'' @ tok @ ''_file'',
                    ContentType = JStr ''application/octet-stream'', ExpiresIn = 300\<rparr> of
             Returned url \<Rightarrow>
               (Inr (200, JObj [(''uploadUrl'', JStr url),
                                (''key'', JStr (''clients/unknown/'' @ tok @ ''_file''))]), w)
           | ClientError msg \<Rightarrow> (Inr (500, JObj [(''error'', JStr msg)]), w)
           | Raises y \<Rightarrow> (Inl (Raised y), w))"
    by (simp add: get_upload_url_def dict_get_def make_s3_key_def Let_def
        split: s3_result.splits)
  have other: "(\<forall>kvs. data \<noteq> JObj kvs) \<longrightarrow>
        get_upload_url e g tok w data = (Inl (Raised AttributeError), w)"
    by (cases data) (simp_all add: get_upload_url_def dict_get_def)
  from name type client store empty other show ?thesis by blast
qed

theorem get_upload_url_defaults_witness:
  "get_upload_url example_env example_presign ''6f1c'' empty_world (JObj [])
     = get_upload_url example_env example_presign ''6f1c'' empty_world
         (JObj [(''fileName'', JStr ''file'')])
   \<and> get_upload_url example_env example_presign ''6f1c'' empty_world (JObj [])
     = get_upload_url example_env example_presign ''6f1c'' empty_world
         (JObj [(''fileType'', JStr ''application/octet-stream'')])
   \<and> get_upload_url example_env example_presign ''6f1c'' empty_world (JObj [])
     = get_upload_url example_env example_presign ''6f1c'' empty_world
         (JObj [(''clientId'', JStr ''unknown'')])
   \<and> get_upload_url example_env example_presign ''6f1c'' empty_world (JObj [])
     = (Inr (200, JObj [(''uploadUrl'', JStr ''https://signed.example/clients/unknown/6f1c_file''),
                        (''key'', JStr ''clients/unknown/6f1c_file'')]), empty_world)
   \<and> get_upload_url example_env no_credentials ''6f1c'' empty_world (JObj [])
     = (Inl (Raised NoCredentialsError), empty_world)
   \<and> get_upload_url example_env example_presign ''6f1c'' empty_world (JArr [])
     = (Inl (Raised AttributeError), empty_world)"
  using get_upload_url_defaults [of "[]" example_env example_presign "''6f1c''" empty_world _
      "JArr []"]
    get_upload_url_defaults [of "[]" example_env no_credentials "''6f1c''" empty_world
      NoCredentialsError]
  by (simp add: get_upload_url_def dict_get_def make_s3_key_def Let_def example_presign_def
      no_credentials_def)

text \<open>The body \<open>null\<close>: all three fields are missing and the handler raises.\<close>

theorem get_upload_url_null_body_counterexample:
  "get_upload_url example_env example_presign ''6f1c'' empty_world JNull
     = (Inl (Raised AttributeError), empty_world)"
  by (simp add: get_upload_url_def dict_get_def)

section \<open>Client registry\<close>

text \<open>
  C1. Starting from stored clients with distinct identifiers, any sequence of calls of
  \<open>create_client\<close> answers 201 for pairwise different identifiers, none of them stored
  before, and the stored identifiers stay distinct. A call whose \<open>clientId\<close> is the identifier
  of a stored client answers 409 with \<open>Client ID already exists\<close> and returns the state it
  was given: no row of either table is inserted.
\<close>

theorem create_client_unique:
  assumes "distinct (map Client.client_id (clients w))"
  shows "distinct (created_ids (fst (serve_all e w (map (case_prod CreateClient) reqs))))
    \<and> (\<forall>s. JStr s \<in> set (created_ids (fst (serve_all e w (map (case_prod CreateClient) reqs))))
          \<longrightarrow> s \<notin> set (map Client.client_id (clients w)))
    \<and> distinct (map Client.client_id
          (clients (snd (serve_all e w (map (case_prod CreateClient) reqs)))))
    \<and> (cid \<in> set (map Client.client_id (clients w))
          \<and> dict_get data ''clientId'' JNull = Inr (JStr cid)
        \<longrightarrow> create_client e utcnow w data
              = (Inr (409, JObj [(''error'', JStr ''Client ID already exists'')]), w))"
proof -
  from serve_all_creates_stored [of e w reqs] assms obtain new
    where s: "map Client.client_id (clients (snd (serve_all e w (map (case_prod CreateClient) reqs))))
            = map Client.client_id (clients w) @ new"
      and c: "created_ids (fst (serve_all e w (map (case_prod CreateClient) reqs))) = map JStr new"
      and d: "distinct (map Client.client_id (clients w) @ new)"
    by blast
  have 1: "distinct (created_ids (fst (serve_all e w (map (case_prod CreateClient) reqs))))"
    unfolding c using d by (simp add: distinct_map inj_on_def)
  have 2: "\<forall>s. JStr s \<in> set (created_ids (fst (serve_all e w (map (case_prod CreateClient) reqs))))
          \<longrightarrow> s \<notin> set (map Client.client_id (clients w))"
    unfolding c using d by auto
  have 3: "distinct (map Client.client_id
          (clients (snd (serve_all e w (map (case_prod CreateClient) reqs)))))"
    unfolding s using d .
  have 4: "cid \<in> set (map Client.client_id (clients w))
          \<and> dict_get data ''clientId'' JNull = Inr (JStr cid)
        \<longrightarrow> create_client e utcnow w data
              = (Inr (409, JObj [(''error'', JStr ''Client ID already exists'')]), w)"
  proof
    assume h: "cid \<in> set (map Client.client_id (clients w))
          \<and> dict_get data ''clientId'' JNull = Inr (JStr cid)"
    then have "find (\<lambda>c. Client.client_id c = cid) (clients w) \<noteq> None"
      by (auto simp: find_None_iff)
    then obtain existing where "find (\<lambda>c. Client.client_id c = cid) (clients w) = Some existing"
      by blast
    with h show "create_client e utcnow w data
              = (Inr (409, JObj [(''error'', JStr ''Client ID already exists'')]), w)"
      by (simp add: create_client_def)
  qed
  from 1 2 3 4 show ?thesis by blast
qed

theorem create_client_unique_witness:
  "distinct (map Client.client_id (clients example_world))
   \<and> created_ids (fst (serve_all example_env example_world
        (map (case_prod CreateClient)
           [(\<lambda>i. 2000 + i, example_client), (\<lambda>i. 3000 + i, example_other)])))
       = [JStr ''C124'']
   \<and> create_client example_env (\<lambda>i. 2000 + i) example_world example_client
       = (Inr (409, JObj [(''error'', JStr ''Client ID already exists'')]), example_world)"
proof -
  have stored: "distinct (map Client.client_id (clients example_world))"
    by (simp add: example_world_eval)
  have run: "created_ids (fst (serve_all example_env example_world
        (map (case_prod CreateClient)
           [(\<lambda>i. 2000 + i, example_client), (\<lambda>i. 3000 + i, example_other)])))
       = [JStr ''C124'']"
    by (simp add: example_world_eval eval_defs example_other_def)
  from create_client_unique [OF stored, of example_env
      "[(\<lambda>i. 2000 + i, example_client), (\<lambda>i. 3000 + i, example_other)]"
      "''C123''" example_client "\<lambda>i. 2000 + i"]
  have "create_client example_env (\<lambda>i. 2000 + i) example_world example_client
       = (Inr (409, JObj [(''error'', JStr ''Client ID already exists'')]), example_world)"
    by (simp add: example_world_eval example_client_def)
  with stored run show ?thesis by simp
qed

text \<open>
  C2. A call of \<open>create_client\<close> either leaves the state as it was and does not answer 201,
  or answers 201 and has appended the client row together with one picture row per descriptor
  submitted, all of them referring to that client. In the second case \<open>get_client\<close> on the
  identifier returned finds the client, and its \<open>pictures\<close> list has one entry per descriptor,
  in order, whose \<open>s3_key\<close> is the descriptor's \<open>key\<close>. The model runs one request at a time;
  what a concurrent reader sees is the database's isolation and is not part of it.
\<close>

theorem create_client_atomic:
  assumes "consistent w" and "create_client e utcnow w data = (r, w')"
  shows "(w' = w \<and> (\<forall>body. r \<noteq> Inr (201, body)))
    \<or> (\<exists>body cid v pics d ps c rows.
          r = Inr (201, body)
        \<and> dict_get body ''clientId'' JNull = Inr (JStr cid)
        \<and> (\<forall>s. dict_get data ''clientId'' JNull = Inr (JStr s) \<longrightarrow> cid = s)
        \<and> dict_get data ''pictures'' (JArr []) = Inr v \<and> iterate v = Inr pics
        \<and> get_client e w' cid = (Inr (200, d), w')
        \<and> dict_get d ''pictures'' JNull = Inr (JArr ps)
        \<and> length ps = length pics
        \<and> (\<forall>i < length pics. \<forall>key. dict_get (pics ! i) ''key'' JNull = Inr (JStr key)
               \<longrightarrow> dict_get (ps ! i) ''s3_key'' JNull = Inr (JStr key))
        \<and> clients w' = clients w @ [c]
        \<and> client_pictures w' = client_pictures w @ rows
        \<and> length rows = length pics
        \<and> (\<forall>p \<in> set rows. ClientPicture.client_id p = Client.id c))"
  using create_client_cases [OF assms(2)]
proof (elim disjE conjE exE)
  assume "w' = w" and "\<forall>body. r \<noteq> Inr (201, body)"
  then show ?thesis by simp
next
  fix c rows
  assume c: "new_client e utcnow w data = Inr c"
    and rows: "new_pictures e utcnow w c data = Inr rows"
    and r: "r = Inr (201, JObj [(''message'', JStr ''Client registered''),
                           (''clientId'', JStr (Client.client_id c)),
                           (''id'', JNum (int (Client.id c)))])"
    and w': "w' = w\<lparr>clients := clients w @ [c], client_pictures := client_pictures w @ rows,
              next_client_id := Suc (next_client_id w),
              next_picture_id := next_picture_id w + length rows\<rparr>"
  from new_pictures_Inr [OF rows] obtain v pics
    where v: "dict_get data ''pictures'' (JArr []) = Inr v" and pics: "iterate v = Inr pics"
      and len: "length rows = length pics"
      and fk: "\<forall>p \<in> set rows. ClientPicture.client_id p = Client.id c"
      and keys: "\<forall>i < length pics. \<forall>key. dict_get (pics ! i) ''key'' JNull = Inr (JStr key)
                  \<longrightarrow> s3_key (rows ! i) = key"
    by blast
  let ?body = "JObj [(''message'', JStr ''Client registered''),
                     (''clientId'', JStr (Client.client_id c)),
                     (''id'', JNum (int (Client.id c)))]"
  let ?ps = "map (picture_to_dict e) rows"
  have 1: "dict_get ?body ''clientId'' JNull = Inr (JStr (Client.client_id c))" by simp
  have 2: "\<forall>s. dict_get data ''clientId'' JNull = Inr (JStr s) \<longrightarrow> Client.client_id c = s"
    using new_client_Inr(4) [OF c] by blast
  have 3: "get_client e w' (Client.client_id c) = (Inr (200, to_dict e w' c), w')"
    by (rule get_created(1) [OF assms(1) c rows w'])
  have 4: "dict_get (to_dict e w' c) ''pictures'' JNull = Inr (JArr ?ps)"
    by (simp only: to_dict_fields get_created(2) [OF assms(1) c rows w'])
  have 5: "length ?ps = length pics" using len by simp
  have 6: "\<forall>i < length pics. \<forall>key. dict_get (pics ! i) ''key'' JNull = Inr (JStr key)
               \<longrightarrow> dict_get (?ps ! i) ''s3_key'' JNull = Inr (JStr key)"
    using keys len by (simp add: picture_to_dict_fields)
  have 7: "clients w' = clients w @ [c]" "client_pictures w' = client_pictures w @ rows"
    by (simp_all add: w')
  from r 1 2 v pics 3 4 5 6 7 len fk show ?thesis by blast
qed

theorem create_client_atomic_witness:
  "consistent empty_world
   \<and> create_client example_env (\<lambda>i. 1000 + i) empty_world example_client
       = (Inr (201, JObj [(''message'', JStr ''Client registered''),
                          (''clientId'', JStr ''C123''), (''id'', JNum 1)]), example_world)
   \<and> (\<exists>d ps. get_client example_env example_world ''C123'' = (Inr (200, d), example_world)
         \<and> dict_get d ''pictures'' JNull = Inr (JArr ps)
         \<and> map (\<lambda>p. dict_get p ''s3_key'' JNull) ps
             = [Inr (JStr ''clients/C123/6f1c_photo.png''),
                Inr (JStr ''clients/C123/a02b_id.jpg'')])
   \<and> length (clients example_world) = 1 \<and> length (client_pictures example_world) = 2"
proof -
  from create_client_atomic [OF consistent_empty example_created]
  obtain cid v pics d ps
    where cid: "\<forall>s. dict_get example_client ''clientId'' JNull = Inr (JStr s) \<longrightarrow> cid = s"
      and v: "dict_get example_client ''pictures'' (JArr []) = Inr v"
      and pics: "iterate v = Inr pics"
      and get: "get_client example_env example_world cid = (Inr (200, d), example_world)"
      and ps: "dict_get d ''pictures'' JNull = Inr (JArr ps)"
      and len: "length ps = length pics"
      and keys: "\<forall>i < length pics. \<forall>key. dict_get (pics ! i) ''key'' JNull = Inr (JStr key)
               \<longrightarrow> dict_get (ps ! i) ''s3_key'' JNull = Inr (JStr key)"
    by auto
  from cid have c: "cid = ''C123''" by (simp add: example_client_def)
  from v pics have p: "pics = [JObj [(''key'', JStr ''clients/C123/6f1c_photo.png''),
                                      (''fileName'', JStr ''photo.png''),
                                      (''fileType'', JStr ''image/png'')],
                                JObj [(''key'', JStr ''clients/C123/a02b_id.jpg'')]]"
    by (auto simp: example_client_def)
  from len p obtain p0 p1 where ps2: "ps = [p0, p1]"
    by (cases ps; cases "tl ps") auto
  from keys [rule_format, of 0] keys [rule_format, of 1] p ps2
  have "map (\<lambda>p. dict_get p ''s3_key'' JNull) ps
             = [Inr (JStr ''clients/C123/6f1c_photo.png''),
                Inr (JStr ''clients/C123/a02b_id.jpg'')]"
    by simp
  with get ps c consistent_empty example_created show ?thesis
    by (auto simp: example_world_eval)
qed

text \<open>
  C3. When \<open>delete_client\<close> returns a response, it is 200, \<open>get_client\<close> on the same
  identifier then aborts with 404, the client row is gone, and no row of
  \<^verbatim>\<open>client_pictures\<close> refers to its primary key.
\<close>

theorem delete_client_cascade:
  assumes "consistent w" and "delete_client e delete_object w cid = (Inr (status, body), w')"
  shows "status = 200
    \<and> get_client e w' cid = (Inl NotFound, w')
    \<and> (\<exists>c. find (\<lambda>c. Client.client_id c = cid) (clients w) = Some c
          \<and> c \<notin> set (clients w')
          \<and> (\<forall>p \<in> set (client_pictures w'). ClientPicture.client_id p \<noteq> Client.id c)
          \<and> pictures w' c = [])"
proof (cases "find (\<lambda>c. Client.client_id c = cid) (clients w)")
  case None
  with assms(2) show ?thesis by (simp add: delete_client_def)
next
  case (Some c)
  let ?w1 = "snd (delete_files e delete_object w (pictures w c))"
  from Some assms(2) have status: "status = 200" and w': "w' = session_delete ?w1 c"
    by (auto simp: delete_client_def split: prod.splits option.splits)
  from Some have c_in: "c \<in> set (clients w)" and c_id: "Client.client_id c = cid"
    by (auto simp: find_Some_iff in_set_conv_nth)
  have rows: "clients w' = filter (\<lambda>r. Client.id r \<noteq> Client.id c) (clients w)"
    by (simp add: w' session_delete_def)
  have pics: "client_pictures w'
      = filter (\<lambda>p. ClientPicture.id p \<notin> set (map ClientPicture.id (pictures w c)))
          (client_pictures w)"
    by (simp add: w' session_delete_def)
  have gone: "c \<notin> set (clients w')" by (simp add: rows)
  have no_ref: "\<forall>p \<in> set (client_pictures w'). ClientPicture.client_id p \<noteq> Client.id c"
    unfolding pics by (auto simp: pictures_def)
  have none: "find (\<lambda>r. Client.client_id r = cid) (clients w') = None"
  proof -
    have "r = c" if "r \<in> set (clients w)" and "Client.client_id r = cid" for r
      using assms(1) that c_in c_id
      by (auto simp: consistent_def distinct_map inj_on_def)
    then show ?thesis by (auto simp: find_None_iff rows)
  qed
  then have get: "get_client e w' cid = (Inl NotFound, w')"
    by (simp add: get_client_def)
  from no_ref have empty: "pictures w' c = []"
    by (auto simp: pictures_def filter_empty_conv)
  from status get Some gone no_ref empty show ?thesis by simp
qed

theorem delete_client_cascade_witness:
  "consistent example_world
   \<and> delete_client example_env (\<lambda>b k. Returned ()) example_world ''C123''
       = (Inr (200, JObj [(''message'', JStr ''Client C123 deleted'')]),
          example_world\<lparr>clients := [], client_pictures := []\<rparr>)
   \<and> get_client example_env (example_world\<lparr>clients := [], client_pictures := []\<rparr>) ''C123''
       = (Inl NotFound, example_world\<lparr>clients := [], client_pictures := []\<rparr>)"
proof -
  have run: "delete_client example_env (\<lambda>b k. Returned ()) example_world ''C123''
       = (Inr (200, JObj [(''message'', JStr ''Client C123 deleted'')]),
          example_world\<lparr>clients := [], client_pictures := []\<rparr>)"
    by (simp add: example_world_eval show_defs image_iff)
  from delete_client_cascade [OF example_world_consistent run] example_world_consistent run
  show ?thesis by simp
qed




text \<open>
  C8. \<open>get_clients\<close> answers 200 with the \<open>to_dict\<close> of every stored client, each once, in
  descending order of \<open>created_at\<close>: three clients created at \<open>t1 < t2 < t3\<close> come back as
  \<open>[t3, t2, t1]\<close>. The \<open>pictures\<close> of an entry are the rows of \<^verbatim>\<open>client_pictures\<close> whose foreign
  key is the client, in the order of the table, each with its key and the URL
  \<open>https://{bucket}.s3.amazonaws.com/{key}\<close>; and when the state comes from a successful
  \<open>create_client\<close>, the client just created is listed with one picture per descriptor
  submitted, with the submitted key and its URL.
\<close>

theorem get_clients_ordering:
  "\<exists>cs. get_clients e w = (Inr (200, JArr (map (to_dict e w) cs)), w)
     \<and> mset cs = mset (clients w)
     \<and> sorted (rev (map created_at cs))
     \<and> (\<forall>c1 c2 c3. created_at c1 < created_at c2 \<and> created_at c2 < created_at c3
            \<and> mset (clients w) = {#c1, c2, c3#} \<longrightarrow> cs = [c3, c2, c1])
     \<and> (\<forall>c \<in> set cs. \<exists>ds.
           dict_get (to_dict e w c) ''pictures'' JNull = Inr (JArr ds)
         \<and> map (\<lambda>d. dict_get d ''s3_key'' JNull) ds
             = map (\<lambda>p. Inr (JStr (s3_key p)))
                 (filter (\<lambda>p. ClientPicture.client_id p = Client.id c) (client_pictures w))
         \<and> map (\<lambda>d. dict_get d ''url'' JNull) ds
             = map (\<lambda>p. Inr (JStr (''https://'' @ format_opt (S3_BUCKET e)
                                     @ ''.s3.amazonaws.com/'' @ s3_key p)))
                 (filter (\<lambda>p. ClientPicture.client_id p = Client.id c) (client_pictures w)))
     \<and> (\<forall>w0 utcnow data body v pics.
           consistent w0 \<and> create_client e utcnow w0 data = (Inr (201, body), w)
           \<and> dict_get data ''pictures'' (JArr []) = Inr v \<and> iterate v = Inr pics
         \<longrightarrow> (\<exists>c \<in> set cs. \<exists>ds.
                 dict_get body ''clientId'' JNull = Inr (JStr (Client.client_id c))
               \<and> dict_get (to_dict e w c) ''pictures'' JNull = Inr (JArr ds)
               \<and> length ds = length pics
               \<and> (\<forall>i < length pics. \<forall>key.
                     dict_get (pics ! i) ''key'' JNull = Inr (JStr key)
                     \<longrightarrow> dict_get (ds ! i) ''s3_key'' JNull = Inr (JStr key)
                       \<and> dict_get (ds ! i) ''url'' JNull
                           = Inr (JStr (''https://'' @ format_opt (S3_BUCKET e)
                                        @ ''.s3.amazonaws.com/'' @ key)))))"
proof -
  let ?cs = "order_by_created_at_desc (clients w)"
  have run: "get_clients e w = (Inr (200, JArr (map (to_dict e w) ?cs)), w)"
    by (simp add: get_clients_def)
  have perm: "mset ?cs = mset (clients w)"
    by (simp add: order_by_created_at_desc_def)
  have desc: "sorted (rev (map created_at ?cs))"
    by (simp add: order_by_created_at_desc_def rev_map)
  have three: "\<forall>c1 c2 c3. created_at c1 < created_at c2 \<and> created_at c2 < created_at c3
            \<and> mset (clients w) = {#c1, c2, c3#} \<longrightarrow> ?cs = [c3, c2, c1]"
  proof (intro allI impI)
    fix c1 c2 c3
    assume h: "created_at c1 < created_at c2 \<and> created_at c2 < created_at c3
            \<and> mset (clients w) = {#c1, c2, c3#}"
    have only: "filter (\<lambda>x. created_at c = created_at x) (rev (clients w)) = [c]"
      if "c \<in> {c1, c2, c3}" for c
    proof -
      have "mset (filter (\<lambda>x. created_at c = created_at x) (rev (clients w))) = {#c#}"
        using h that by auto
      then show ?thesis by (simp only: mset_single_iff)
    qed
    have "sort_key created_at (rev (clients w)) = [c1, c2, c3]"
      by (rule properties_for_sort_key) (use h only in auto)
    then show "?cs = [c3, c2, c1]" by (simp add: order_by_created_at_desc_def)
  qed
  have dicts: "\<forall>c \<in> set ?cs. \<exists>ds.
           dict_get (to_dict e w c) ''pictures'' JNull = Inr (JArr ds)
         \<and> map (\<lambda>d. dict_get d ''s3_key'' JNull) ds
             = map (\<lambda>p. Inr (JStr (s3_key p)))
                 (filter (\<lambda>p. ClientPicture.client_id p = Client.id c) (client_pictures w))
         \<and> map (\<lambda>d. dict_get d ''url'' JNull) ds
             = map (\<lambda>p. Inr (JStr (''https://'' @ format_opt (S3_BUCKET e)
                                     @ ''.s3.amazonaws.com/'' @ s3_key p)))
                 (filter (\<lambda>p. ClientPicture.client_id p = Client.id c) (client_pictures w))"
    by (simp add: to_dict_fields picture_to_dict_fields pictures_def comp_def)
  have created: "\<forall>w0 utcnow data body v pics.
           consistent w0 \<and> create_client e utcnow w0 data = (Inr (201, body), w)
           \<and> dict_get data ''pictures'' (JArr []) = Inr v \<and> iterate v = Inr pics
         \<longrightarrow> (\<exists>c \<in> set ?cs. \<exists>ds.
                 dict_get body ''clientId'' JNull = Inr (JStr (Client.client_id c))
               \<and> dict_get (to_dict e w c) ''pictures'' JNull = Inr (JArr ds)
               \<and> length ds = length pics
               \<and> (\<forall>i < length pics. \<forall>key.
                     dict_get (pics ! i) ''key'' JNull = Inr (JStr key)
                     \<longrightarrow> dict_get (ds ! i) ''s3_key'' JNull = Inr (JStr key)
                       \<and> dict_get (ds ! i) ''url'' JNull
                           = Inr (JStr (''https://'' @ format_opt (S3_BUCKET e)
                                        @ ''.s3.amazonaws.com/'' @ key))))"
  proof (intro allI impI)
    fix w0 utcnow data body v pics
    assume h: "consistent w0 \<and> create_client e utcnow w0 data = (Inr (201, body), w)
           \<and> dict_get data ''pictures'' (JArr []) = Inr v \<and> iterate v = Inr pics"
    from h have ok: "consistent w0"
      and call: "create_client e utcnow w0 data = (Inr (201, body), w)"
      and v: "dict_get data ''pictures'' (JArr []) = Inr v" and pics: "iterate v = Inr pics"
      by simp_all
    from create_client_cases [OF call] obtain c rows
      where c: "new_client e utcnow w0 data = Inr c"
        and rows: "new_pictures e utcnow w0 c data = Inr rows"
        and body: "body = JObj [(''message'', JStr ''Client registered''),
                           (''clientId'', JStr (Client.client_id c)),
                           (''id'', JNum (int (Client.id c)))]"
        and w: "w = w0\<lparr>clients := clients w0 @ [c],
              client_pictures := client_pictures w0 @ rows,
              next_client_id := Suc (next_client_id w0),
              next_picture_id := next_picture_id w0 + length rows\<rparr>"
      by blast
    from new_pictures_Inr [OF rows] v pics
    have len: "length rows = length pics"
      and keys: "\<forall>i < length pics. \<forall>key. dict_get (pics ! i) ''key'' JNull = Inr (JStr key)
                  \<longrightarrow> s3_key (rows ! i) = key"
      by auto
    have listed: "c \<in> set ?cs"
      using perm [THEN mset_eq_setD] by (simp add: w)
    have mine: "pictures w c = rows" by (rule get_created(2) [OF ok c rows w])
    let ?ds = "map (picture_to_dict e) rows"
    have 1: "dict_get body ''clientId'' JNull = Inr (JStr (Client.client_id c))"
      by (simp add: body)
    have 2: "dict_get (to_dict e w c) ''pictures'' JNull = Inr (JArr ?ds)"
      by (simp only: to_dict_fields mine)
    have 3: "length ?ds = length pics" using len by simp
    have 4: "\<forall>i < length pics. \<forall>key.
                     dict_get (pics ! i) ''key'' JNull = Inr (JStr key)
                     \<longrightarrow> dict_get (?ds ! i) ''s3_key'' JNull = Inr (JStr key)
                       \<and> dict_get (?ds ! i) ''url'' JNull
                           = Inr (JStr (''https://'' @ format_opt (S3_BUCKET e)
                                        @ ''.s3.amazonaws.com/'' @ key))"
      using keys len by (simp add: picture_to_dict_fields)
    from listed 1 2 3 4
    show "\<exists>c \<in> set ?cs. \<exists>ds.
                 dict_get body ''clientId'' JNull = Inr (JStr (Client.client_id c))
               \<and> dict_get (to_dict e w c) ''pictures'' JNull = Inr (JArr ds)
               \<and> length ds = length pics
               \<and> (\<forall>i < length pics. \<forall>key.
                     dict_get (pics ! i) ''key'' JNull = Inr (JStr key)
                     \<longrightarrow> dict_get (ds ! i) ''s3_key'' JNull = Inr (JStr key)
                       \<and> dict_get (ds ! i) ''url'' JNull
                           = Inr (JStr (''https://'' @ format_opt (S3_BUCKET e)
                                        @ ''.s3.amazonaws.com/'' @ key)))"
      by blast
  qed
  from run perm desc three dicts created show ?thesis by blast
qed

theorem get_clients_ordering_witness:
  "consistent (snd (create_client example_env (\<lambda>i. 3000 + i) example_world example_other))
   \<and> create_client example_env (\<lambda>i. 2000 + i)
         (snd (create_client example_env (\<lambda>i. 3000 + i) example_world example_other))
         example_third
       = (Inr (201, JObj [(''message'', JStr ''Client registered''),
                          (''clientId'', JStr ''C125''), (''id'', JNum 3)]), example_three)
   \<and> get_clients example_env example_three
     = (Inr (200, JArr
         [JObj [(''id'', JNum 2), (''client_id'', JStr ''C124''),
                (''first_name'', JStr ''Alan''), (''last_name'', JStr ''Turing''),
                (''email'', JStr ''alan@example.org''), (''phone'', JNull), (''dob'', JNull),
                (''address'', JObj [(''street'', JNull), (''city'', JNull), (''state'', JNull),
                                    (''zip'', JNull), (''country'', JNull)]),
                (''notes'', JNull), (''pictures'', JArr []), (''created_at'', JStr ''T'')],
          JObj [(''id'', JNum 3), (''client_id'', JStr ''C125''),
                (''first_name'', JStr ''Grace''), (''last_name'', JStr ''Hopper''),
                (''email'', JStr ''grace@example.org''), (''phone'', JNull), (''dob'', JNull),
                (''address'', JObj [(''street'', JNull), (''city'', JNull), (''state'', JNull),
                                    (''zip'', JNull), (''country'', JNull)]),
                (''notes'', JNull),
                (''pictures'', JArr
                  [JObj [(''id'', JNum 3), (''s3_key'', JStr ''clients/C125/77aa_badge.png''),
                         (''file_name'', JNull), (''file_type'', JNull),
                         (''url'', JStr
                           ''https://vault.s3.amazonaws.com/clients/C125/77aa_badge.png'')]]),
                (''created_at'', JStr ''T'')],
          JObj [(''id'', JNum 1), (''client_id'', JStr ''C123''),
                (''first_name'', JStr ''Ada''), (''last_name'', JStr ''Lovelace''),
                (''email'', JStr ''ada@example.org''), (''phone'', JNull), (''dob'', JNull),
                (''address'', JObj [(''street'', JStr ''1 Main St''),
                                    (''city'', JStr ''Springfield''), (''state'', JStr ''IL''),
                                    (''zip'', JStr ''62701''), (''country'', JStr ''US'')]),
                (''notes'', JNull),
                (''pictures'', JArr
                  [JObj [(''id'', JNum 1), (''s3_key'', JStr ''clients/C123/6f1c_photo.png''),
                         (''file_name'', JStr ''photo.png''), (''file_type'', JStr ''image/png''),
                         (''url'', JStr
                           ''https://vault.s3.amazonaws.com/clients/C123/6f1c_photo.png'')],
                   JObj [(''id'', JNum 2), (''s3_key'', JStr ''clients/C123/a02b_id.jpg''),
                         (''file_name'', JNull), (''file_type'', JNull),
                         (''url'', JStr
                           ''https://vault.s3.amazonaws.com/clients/C123/a02b_id.jpg'')]]),
                (''created_at'', JStr ''T'')]]),
        example_three)"
proof -
  from get_clients_ordering [of example_env example_three] obtain cs
    where run: "get_clients example_env example_three
        = (Inr (200, JArr (map (to_dict example_env example_three) cs)), example_three)"
      and three: "\<forall>c1 c2 c3. created_at c1 < created_at c2 \<and> created_at c2 < created_at c3
            \<and> mset (clients example_three) = {#c1, c2, c3#} \<longrightarrow> cs = [c3, c2, c1]"
    by blast
  have before: "consistent (snd (create_client example_env (\<lambda>i. 3000 + i) example_world
      example_other))"
    by (intro consistent_create example_world_consistent)
  have last: "create_client example_env (\<lambda>i. 2000 + i)
         (snd (create_client example_env (\<lambda>i. 3000 + i) example_world example_other))
         example_third
       = (Inr (201, JObj [(''message'', JStr ''Client registered''),
                          (''clientId'', JStr ''C125''), (''id'', JNum 3)]), example_three)"
    unfolding example_three_eval
    by (simp add: example_world_eval eval_defs example_other_def example_third_def upt_rec)
  obtain a b c where abc: "clients example_three = [a, b, c]"
    and a: "a = clients example_three ! 0" and b: "b = clients example_three ! 1"
    and c: "c = clients example_three ! 2"
    by (simp add: example_three_eval)
  have times: "created_at a = 1000" "created_at b = 3000" "created_at c = 2000"
    by (simp_all add: a b c example_three_eval)
  from three [rule_format, of a c b] abc times have cs: "cs = [b, c, a]"
    by (simp add: add_mset_commute)
  have "map (to_dict example_env example_three) [b, c, a]
      = map (to_dict example_env example_three)
          [clients example_three ! 1, clients example_three ! 2, clients example_three ! 0]"
    by (simp add: a b c)
  with run cs have "get_clients example_env example_three
      = (Inr (200, JArr (map (to_dict example_env example_three)
          [clients example_three ! 1, clients example_three ! 2, clients example_three ! 0])),
         example_three)"
    by simp
  with before last show ?thesis
    by (simp add: example_three_eval to_dict_def picture_to_dict_def pictures_def opt_json_def
        format_opt_def example_env_def)
qed

text \<open>
  C9. When a client is created with an \<open>address\<close> object made of the five string fields
  \<open>street\<close>, \<open>city\<close>, \<open>state\<close>, \<open>zip\<close> and \<open>country\<close>, \<open>get_client\<close> on its identifier
  returns an \<open>address\<close> object with the same five fields and values.
\<close>

theorem address_round_trip:
  assumes "consistent w"
    and "create_client e utcnow w data = (Inr (201, body), w')"
    and "dict_get body ''clientId'' JNull = Inr (JStr cid)"
    and "dict_get data ''address'' (JObj []) = Inr (JObj a)"
    and "map_of a = map_of [(''street'', JStr st), (''city'', JStr ci), (''state'', JStr sta),
                            (''zip'', JStr z), (''country'', JStr co)]"
  shows "\<exists>d a'. get_client e w' cid = (Inr (200, d), w')
           \<and> dict_get d ''address'' JNull = Inr (JObj a')
           \<and> a' = [(''street'', JStr st), (''city'', JStr ci), (''state'', JStr sta),
                    (''zip'', JStr z), (''country'', JStr co)]
           \<and> map_of a' = map_of a"
proof -
  from create_client_cases [OF assms(2)] obtain c rows
    where c: "new_client e utcnow w data = Inr c"
      and rows: "new_pictures e utcnow w c data = Inr rows"
      and r: "body = JObj [(''message'', JStr ''Client registered''),
                           (''clientId'', JStr (Client.client_id c)),
                           (''id'', JNum (int (Client.id c)))]"
      and w': "w' = w\<lparr>clients := clients w @ [c], client_pictures := client_pictures w @ rows,
              next_client_id := Suc (next_client_id w),
              next_picture_id := next_picture_id w + length rows\<rparr>"
    by blast
  from r assms(3) have cid: "Client.client_id c = cid" by simp
  have fields: "dict_get (JObj a) ''street'' JNull = Inr (JStr st)"
    "dict_get (JObj a) ''city'' JNull = Inr (JStr ci)"
    "dict_get (JObj a) ''state'' JNull = Inr (JStr sta)"
    "dict_get (JObj a) ''zip'' JNull = Inr (JStr z)"
    "dict_get (JObj a) ''country'' JNull = Inr (JStr co)"
    by (simp_all add: assms(5))
  have stored: "street c = Some st" "city c = Some ci" "state c = Some sta"
    "zip_code c = Some z" "country c = Some co"
    using new_client_address [OF c assms(4)] fields by blast+
  have get: "get_client e w' cid = (Inr (200, to_dict e w' c), w')"
    using get_created(1) [OF assms(1) c rows w'] by (simp add: cid)
  have addr: "dict_get (to_dict e w' c) ''address'' JNull
      = Inr (JObj [(''street'', JStr st), (''city'', JStr ci), (''state'', JStr sta),
                   (''zip'', JStr z), (''country'', JStr co)])"
    by (simp add: to_dict_fields stored opt_json_def)
  from get addr assms(5) show ?thesis by simp
qed

theorem address_round_trip_witness:
  "\<exists>d. get_client example_env example_world ''C123'' = (Inr (200, d), example_world)
     \<and> dict_get d ''address'' JNull
         = Inr (JObj [(''street'', JStr ''1 Main St''), (''city'', JStr ''Springfield''),
                      (''state'', JStr ''IL''), (''zip'', JStr ''62701''),
                      (''country'', JStr ''US'')])"
  using address_round_trip [OF consistent_empty example_created,
      of "''C123''" "[(''street'', JStr ''1 Main St''), (''city'', JStr ''Springfield''),
                      (''state'', JStr ''IL''), (''zip'', JStr ''62701''),
                      (''country'', JStr ''US'')]"
         "''1 Main St''" "''Springfield''" "''IL''" "''62701''" "''US''"]
  by (simp add: example_client_def)

end
